theory Spec2Isabelle
  imports Complex_Main "HOL-Library.Sublist"
begin

section \<open>Python values used by the triage agent\<close>

text \<open>
  The three arguments of the triage functions are Python \<^verbatim>\<open>str\<close> objects or
  \<^verbatim>\<open>None\<close>; they are modelled as \<open>string option\<close>. A \<open>char\<close> stands for one
  code point below 256, so \<open>length\<close> and slicing count what Python counts on such text.
  Exceptions are values: a function that can raise returns \<open>error + 'a\<close>, with
  \<open>Inl\<close> for the exception.
\<close>

type_synonym pystr = "string option"

datatype error =
    AttributeError   \<comment> \<open>\<^verbatim>\<open>None.lower()\<close>\<close>
  | TypeError        \<comment> \<open>\<^verbatim>\<open>None[:500]\<close>\<close>
  | CrewError string \<comment> \<open>an instance of \<^verbatim>\<open>Exception\<close> raised by \<^verbatim>\<open>crew.kickoff\<close>, with its \<^verbatim>\<open>str(e)\<close>\<close>
  | CrewExit string  \<comment> \<open>a \<^verbatim>\<open>BaseException\<close> outside \<^verbatim>\<open>Exception\<close> raised in the call
                          (\<^verbatim>\<open>KeyboardInterrupt\<close>, \<^verbatim>\<open>SystemExit\<close>), with its \<^verbatim>\<open>str(e)\<close>\<close>

definition quote :: char where
  "quote = CHR 0x27"

definition nl :: char where
  "nl = CHR 0x0A"

fun str_of_error :: "error \<Rightarrow> string" where
  "str_of_error AttributeError =
     [quote] @ ''NoneType'' @ [quote] @ '' object has no attribute '' @ [quote] @ ''lower'' @ [quote]"
| "str_of_error TypeError =
     [quote] @ ''NoneType'' @ [quote] @ '' object is not subscriptable''"
| "str_of_error (CrewError msg) = msg"
| "str_of_error (CrewExit msg) = msg"

text \<open>\<^verbatim>\<open>isinstance(e, Exception)\<close>: what an \<^verbatim>\<open>except Exception\<close> clause catches.\<close>

fun isinstance_Exception :: "error \<Rightarrow> bool" where
  "isinstance_Exception AttributeError = True"
| "isinstance_Exception TypeError = True"
| "isinstance_Exception (CrewError msg) = True"
| "isinstance_Exception (CrewExit msg) = False"

definition and_then :: "error + 'a \<Rightarrow> ('a \<Rightarrow> error + 'b) \<Rightarrow> error + 'b" where
  "and_then r k = (case r of Inl e \<Rightarrow> Inl e | Inr x \<Rightarrow> k x)"

subsection \<open>String methods\<close>

text \<open>\<^verbatim>\<open>str.lower\<close> on code points below 256: A-Z and the Latin-1 capitals move up by 32.\<close>

definition lower_char :: "char \<Rightarrow> char" where
  "lower_char c =
     (let n = (of_char c :: int)
      in if (65 \<le> n \<and> n \<le> 90) \<or> (192 \<le> n \<and> n \<le> 222 \<and> n \<noteq> 215)
         then char_of (n + 32) else c)"

definition lower :: "string \<Rightarrow> string" where
  "lower s = map lower_char s"

text \<open>\<^verbatim>\<open>str.isspace\<close> on code points below 256, and \<^verbatim>\<open>str.strip()\<close>.\<close>

definition is_space :: "char \<Rightarrow> bool" where
  "is_space c =
     (let n = (of_char c :: int)
      in (9 \<le> n \<and> n \<le> 13) \<or> (28 \<le> n \<and> n \<le> 32) \<or> n = 133 \<or> n = 160)"

definition strip :: "string \<Rightarrow> string" where
  "strip s = rev (dropWhile is_space (rev (dropWhile is_space s)))"

text \<open>\<^verbatim>\<open>sub in s\<close>: \<open>sub\<close> occurs in \<open>s\<close> as a contiguous run.\<close>

fun str_in :: "string \<Rightarrow> string \<Rightarrow> bool" where
  "str_in sub [] = (sub = [])"
| "str_in sub (c # cs) = (prefix sub (c # cs) \<or> str_in sub cs)"

text \<open>
  \<^verbatim>\<open>s.count(sub)\<close> for a non-empty \<open>sub\<close>: occurrences counted from the left without
  overlap; \<open>skip\<close> is the number of characters of the last match still to pass.
\<close>

fun count_from :: "string \<Rightarrow> nat \<Rightarrow> string \<Rightarrow> nat" where
  "count_from sub skip [] = 0"
| "count_from sub skip (c # cs) =
     (if 0 < skip then count_from sub (skip - 1) cs
      else if prefix sub (c # cs) then 1 + count_from sub (length sub - 1) cs
      else count_from sub 0 cs)"

definition str_count :: "string \<Rightarrow> string \<Rightarrow> nat" where
  "str_count s sub = (if sub = [] then length s + 1 else count_from sub 0 s)"

text \<open>\<^verbatim>\<open>s.split("\n", 1)\<close>: one part when there is no newline, else two.\<close>

definition split_once :: "string \<Rightarrow> string list" where
  "split_once s =
     (if nl \<in> set s
      then [takeWhile (\<lambda>c. c \<noteq> nl) s, tl (dropWhile (\<lambda>c. c \<noteq> nl) s)]
      else [s])"

text \<open>\<^verbatim>\<open>x.lower() if x else ""\<close>: \<^verbatim>\<open>None\<close> and \<^verbatim>\<open>""\<close> are both falsy.\<close>

definition lower_or_empty :: "pystr \<Rightarrow> string" where
  "lower_or_empty x =
     (case x of None \<Rightarrow> [] | Some s \<Rightarrow> if s \<noteq> [] then lower s else [])"

text \<open>\<^verbatim>\<open>x.lower()\<close> with no guard: raises on \<^verbatim>\<open>None\<close>.\<close>

definition py_lower :: "pystr \<Rightarrow> error + string" where
  "py_lower x = (case x of None \<Rightarrow> Inl AttributeError | Some s \<Rightarrow> Inr (lower s))"

text \<open>\<^verbatim>\<open>{x}\<close> inside an f-string.\<close>

definition format_str :: "pystr \<Rightarrow> string" where
  "format_str x = (case x of None \<Rightarrow> ''None'' | Some s \<Rightarrow> s)"

section \<open>The agent object\<close>

text \<open>
  \<open>crew_kickoff\<close> stands for \<^verbatim>\<open>Crew(agents=[self.agent], tasks=[self.task]).kickoff(inputs={"email": ...}).raw\<close>:
  the external language model, which either raises or returns text, and about which
  nothing else is known.
\<close>

record EmailTriageAgent =
  triage_instructions :: "(string \<times> string) list"
  crew_kickoff :: "string \<Rightarrow> error + string"

section \<open>\<^verbatim>\<open>EmailTriageAgent._analyze_email_indicators\<close>\<close>

type_synonym indication = "string option \<times> real \<times> string"

definition legal_indicators :: "string list" where
  "legal_indicators =
     [''case'', ''court'', ''filing'', ''attorney'', ''lawyer'', ''legal'',
      ''hearing'', ''plaintiff'', ''defendant'', ''estate'', ''vs.'', ''v.'']"

text \<open>The \<^verbatim>\<open>for indicator in legal_indicators\<close> loop; \<open>None\<close> when it falls through.\<close>

fun legal_loop :: "string list \<Rightarrow> string \<Rightarrow> indication option" where
  "legal_loop [] subject_lower = None"
| "legal_loop (indicator # rest) subject_lower =
     (if str_in indicator subject_lower
      then Some (Some ''respond'', 95 / 100,
                 ''Legal term in subject: '' @ [quote] @ indicator @ [quote])
      else legal_loop rest subject_lower)"

definition team_domains :: "string list" where
  "team_domains = [''whaleylawfirm.com'', ''filevine.com'', ''blazeo.com'']"

definition platform_indicators :: "string \<Rightarrow> string \<Rightarrow> string \<Rightarrow> bool list" where
  "platform_indicators subject_lower body_lower sender_lower =
     [str_in ''new notification'' subject_lower,
      str_in ''notification'' subject_lower \<and> \<not> str_in ''court'' subject_lower,
      str_in ''digest'' subject_lower,
      str_in ''what you missed'' body_lower,
      str_in ''notification since'' body_lower,
      str_in ''noreply'' sender_lower,
      str_in ''no-reply'' sender_lower,
      str_in ''donotreply'' sender_lower,
      str_in ''notification'' sender_lower,
      str_in ''updates'' subject_lower \<and> str_in ''new'' subject_lower,
      list_ex (\<lambda>domain. str_in domain sender_lower)
        [''skool.com'', ''medium.com'', ''facebook.com'', ''twitter.com'', ''linkedin.com''],
      str_in ''view online'' (take 500 body_lower),
      str_in ''view in browser'' body_lower,
      str_in ''email preferences'' body_lower,
      str_in ''unsubscribe'' body_lower \<and>
        (str_in ''offer'' body_lower \<or> str_in ''discount'' body_lower),
      5 < str_count body_lower ''http'',
      str_in ''too many emails'' body_lower]"

text \<open>The chain \<^verbatim>\<open>if i == 0: return ... if i == 16: return ...\<close>.\<close>

definition platform_reason :: "nat \<Rightarrow> string option" where
  "platform_reason i =
     (if i = 0 then Some ''Email contains 'new notification' in subject''
      else if i = 1 then Some ''Email contains 'notification' in subject''
      else if i = 2 then Some ''Email is a digest''
      else if i = 3 then Some (''Email contains 'what you missed'' @ [quote])
      else if i = 4 then Some (''Email contains 'notification since'' @ [quote])
      else if i = 5 then Some ''Email is from noreply address''
      else if i = 6 then Some ''Email is from no-reply address''
      else if i = 7 then Some ''Email is from donotreply address''
      else if i = 8 then Some ''Email is from notification sender''
      else if i = 9 then Some ''Email contains 'updates' and 'new' in subject''
      else if i = 10 then Some ''Email is from social/platform domain''
      else if i = 11 then Some ''Email has 'view online' at top''
      else if i = 12 then Some (''Email has 'view in browser'' @ [quote])
      else if i = 13 then Some ''Email mentions email preferences''
      else if i = 14 then Some ''Email has unsubscribe and offer/discount''
      else if i = 15 then Some ''Email contains many links (marketing)''
      else if i = 16 then Some (''Email mentions 'too many emails'' @ [quote])
      else None)"

text \<open>The \<^verbatim>\<open>for i, indicator in enumerate(platform_indicators)\<close> loop.\<close>

fun platform_loop :: "nat \<Rightarrow> bool list \<Rightarrow> indication option" where
  "platform_loop i [] = None"
| "platform_loop i (indicator # rest) =
     (if indicator
      then (case platform_reason i of
              Some reason \<Rightarrow> Some (Some ''ignore'', 9 / 10, reason)
            | None \<Rightarrow> platform_loop (Suc i) rest)
      else platform_loop (Suc i) rest)"

definition marketing_indicators :: "string \<Rightarrow> string \<Rightarrow> bool list" where
  "marketing_indicators subject_lower body_lower =
     [str_in ''offer'' subject_lower,
      str_in ''discount'' subject_lower,
      str_in ''sale'' subject_lower,
      str_in ''deal'' subject_lower,
      str_in ''promotion'' subject_lower,
      str_in ''special'' subject_lower \<and> str_in ''offer'' subject_lower,
      str_in ''coupon'' subject_lower,
      str_in ''limited time'' subject_lower \<or> str_in ''limited time'' (take 500 body_lower),
      str_in ''off'' subject_lower \<and> str_in ''%'' subject_lower,
      str_in ''exclusive'' subject_lower,
      str_in ''reward'' subject_lower \<and> \<not> str_in ''law'' subject_lower,
      str_in ''pro days'' (take 500 body_lower),
      str_in ''pro days'' subject_lower,
      str_in ''come back'' subject_lower,
      str_in ''miss you'' subject_lower,
      str_in ''save'' subject_lower \<and> str_in ''$'' subject_lower]"

text \<open>
  The confidences are the literals 0.95, 0.9 and 0; the only operation on them is the
  comparison with 0.9 in \<open>triage_email\<close>, so they are kept as exact fractions.
\<close>

definition analyze_email_indicators ::
  "EmailTriageAgent \<Rightarrow> pystr \<Rightarrow> pystr \<Rightarrow> pystr \<Rightarrow> indication" where
  "analyze_email_indicators self subject body sender =
     (let subject_lower = lower_or_empty subject;
          body_lower = lower_or_empty body;
          sender_lower = lower_or_empty sender
      in if list_ex (\<lambda>term. str_in term subject_lower) [''voice message'', ''text message'', ''fax'']
            \<and> str_in ''ringcentral'' sender_lower
         then (Some ''notify'', 95 / 100, ''Message notification from RingCentral'')
         else if (str_in ''bill'' subject_lower \<and> str_in ''due'' subject_lower)
                 \<or> str_in ''payment required'' subject_lower
         then (Some ''notify'', 95 / 100, ''Bill or payment notification'')
         else (case legal_loop legal_indicators subject_lower of
                 Some found \<Rightarrow> found
               | None \<Rightarrow>
         if list_ex (\<lambda>domain. str_in domain sender_lower) team_domains
         then (Some ''respond'', 95 / 100, ''Email from team member domain'')
         else (case (if list_ex (\<lambda>b. b) (platform_indicators subject_lower body_lower sender_lower)
                     then platform_loop 0 (platform_indicators subject_lower body_lower sender_lower)
                     else None) of
                 Some found \<Rightarrow> found
               | None \<Rightarrow>
         if list_ex (\<lambda>b. b) (marketing_indicators subject_lower body_lower)
         then (Some ''ignore'', 9 / 10, ''Email contains marketing/promotional content'')
         else (None, 0, ''No conclusive indicators found, need AI analysis''))))"

section \<open>\<^verbatim>\<open>EmailTriageAgent.triage_email\<close>\<close>

text \<open>The f-string handed to the crew (lines 307-314), with its indentation.\<close>

definition email_content :: "pystr \<Rightarrow> pystr \<Rightarrow> pystr \<Rightarrow> string" where
  "email_content subject sender body =
     [nl] @ ''        Subject: '' @ format_str subject @ [nl] @
     ''        '' @ [nl] @
     ''        From: '' @ format_str sender @ [nl] @
     ''        '' @ [nl] @
     ''        Body:'' @ [nl] @
     ''        '' @ format_str body @ [nl] @
     ''        ''"

text \<open>
  Lines 320-342: the parse of the crew's text into (category, reasoning). The last
  branch is the source's \<^verbatim>\<open>else\<close> for an empty list of parts.
\<close>

definition parse_result :: "string \<Rightarrow> string \<times> string" where
  "parse_result raw =
     (let result_text = strip raw;
          parts = split_once result_text
      in case parts of
           first # others \<Rightarrow>
             (let category_text = strip (lower first);
                  reasoning = (case others of second # _ \<Rightarrow> strip second
                                          | [] \<Rightarrow> ''No reasoning provided'')
              in if category_text = ''ignore'' then (''ignore'', reasoning)
                 else if category_text = ''notify'' then (''notify'', reasoning)
                 else if category_text = ''respond'' then (''respond'', reasoning)
                 else (''notify'',
                       ''Could not determine exact category from '' @ [quote] @ category_text
                       @ [quote] @ '', defaulting to 'notify'.'' @ [nl] @ result_text))
         | [] \<Rightarrow> (''notify'', ''Failed to parse result: '' @ result_text))"

text \<open>
  \<^verbatim>\<open>any(term in subject.lower() for term in terms)\<close>: the generator calls
  \<^verbatim>\<open>subject.lower()\<close> once per term, so it raises on \<^verbatim>\<open>None\<close> as soon as there is a
  term to look at.
\<close>

fun any_in_lower :: "string list \<Rightarrow> pystr \<Rightarrow> error + bool" where
  "any_in_lower [] subject = Inr False"
| "any_in_lower (term # rest) subject =
     (case py_lower subject of
        Inl e \<Rightarrow> Inl e
      | Inr subject_lower \<Rightarrow>
          if str_in term subject_lower then Inr True else any_in_lower rest subject)"

definition legal_terms :: "string list" where
  "legal_terms =
     [''case'', ''court'', ''attorney'', ''estate'', ''v.'', ''vs.'', ''plaintiff'', ''defendant'']"

text \<open>
  Lines 347-349, 352-355 and 358-360: the three overrides, each a short-circuit
  \<^verbatim>\<open>and\<close> chain that starts with \<^verbatim>\<open>category == "ignore"\<close>.
\<close>

definition safeguard_message :: "pystr \<Rightarrow> pystr \<Rightarrow> string \<times> string \<Rightarrow> error + string \<times> string" where
  "safeguard_message subject sender cr =
     (case cr of (category, reasoning) \<Rightarrow>
        if category \<noteq> ''ignore'' then Inr (category, reasoning)
        else and_then (any_in_lower [''voice message'', ''text message'', ''fax''] subject) (\<lambda>hit.
             if \<not> hit then Inr (category, reasoning)
             else and_then (py_lower sender) (\<lambda>sender_lower.
             if str_in ''ringcentral'' sender_lower
             then Inr (''notify'',
                       ''SAFEGUARD OVERRIDE: Voice/text/fax messages should not be ignored.''
                       @ [nl] @ ''Original reasoning: '' @ reasoning)
             else Inr (category, reasoning))))"

definition safeguard_legal :: "pystr \<Rightarrow> string \<times> string \<Rightarrow> error + string \<times> string" where
  "safeguard_legal subject cr =
     (case cr of (category, reasoning) \<Rightarrow>
        if category \<noteq> ''ignore'' then Inr (category, reasoning)
        else and_then (any_in_lower legal_terms subject) (\<lambda>hit.
             if hit
             then Inr (''respond'',
                       ''SAFEGUARD OVERRIDE: Legal correspondence should not be ignored.''
                       @ [nl] @ ''Original reasoning: '' @ reasoning)
             else Inr (category, reasoning)))"

definition safeguard_bill :: "pystr \<Rightarrow> string \<times> string \<Rightarrow> error + string \<times> string" where
  "safeguard_bill subject cr =
     (case cr of (category, reasoning) \<Rightarrow>
        if category \<noteq> ''ignore'' then Inr (category, reasoning)
        else and_then (py_lower subject) (\<lambda>subject_lower.
             if \<not> str_in ''bill'' subject_lower then Inr (category, reasoning)
             else and_then (py_lower subject) (\<lambda>subject_lower'.
             if str_in ''due'' subject_lower'
             then Inr (''notify'',
                       ''SAFEGUARD OVERRIDE: Bills and payment notices should not be ignored.''
                       @ [nl] @ ''Original reasoning: '' @ reasoning)
             else Inr (category, reasoning))))"

definition apply_safeguards :: "pystr \<Rightarrow> pystr \<Rightarrow> string \<times> string \<Rightarrow> error + string \<times> string" where
  "apply_safeguards subject sender cr =
     and_then (safeguard_message subject sender cr) (\<lambda>cr1.
     and_then (safeguard_legal subject cr1) (\<lambda>cr2.
     safeguard_bill subject cr2))"

text \<open>
  Lines 299-362: the crew runs on the formatted email, its text is parsed and the three
  overrides follow. An exception of the crew leaves the method: there is no
  \<^verbatim>\<open>try\<close> in it.
\<close>

definition llm_path ::
  "EmailTriageAgent \<Rightarrow> pystr \<Rightarrow> pystr \<Rightarrow> pystr \<Rightarrow> error + string \<times> string" where
  "llm_path self subject body sender =
     and_then (crew_kickoff self (email_content subject sender body))
       (\<lambda>raw. apply_safeguards subject sender (parse_result raw))"

text \<open>
  The whole method. \<^verbatim>\<open>if pre_category and confidence >= 0.9\<close> is false for
  \<^verbatim>\<open>None\<close> and for the empty string; when it holds the method returns at once
  (line 297), before the crew and before the overrides.
\<close>

definition triage_email ::
  "EmailTriageAgent \<Rightarrow> pystr \<Rightarrow> pystr \<Rightarrow> pystr \<Rightarrow> error + string \<times> string" where
  "triage_email self subject body sender =
     (case analyze_email_indicators self subject body sender of
        (pre_category, confidence, pre_reasoning) \<Rightarrow>
          (case pre_category of
             Some category \<Rightarrow>
               if category \<noteq> [] \<and> 9 / 10 \<le> confidence
               then Inr (category, ''Automatic categorization: '' @ pre_reasoning)
               else llm_path self subject body sender
           | None \<Rightarrow> llm_path self subject body sender))"


section \<open>The flow and the ingestion wrapper\<close>

record EmailTriageState =
  email_subject :: pystr
  email_body :: pystr
  email_sender :: pystr
  triage_category :: string
  triage_reasoning :: string

record EmailTriageFlow =
  triage_agent :: EmailTriageAgent
  state :: EmailTriageState

text \<open>
  \<^verbatim>\<open>EmailTriageFlow.process_email\<close>: calls the agent on the state's fields, stores the
  pair in the state and returns the category. An exception of the agent leaves through
  it. \<^verbatim>\<open>Flow.kickoff()\<close> is taken to run this start method and hand back its value.
\<close>

definition process_email :: "EmailTriageFlow \<Rightarrow> error + string \<times> EmailTriageFlow" where
  "process_email flow =
     and_then
       (triage_email (triage_agent flow) (email_subject (state flow))
          (email_body (state flow)) (email_sender (state flow)))
       (\<lambda>cr. case cr of (category, reasoning) \<Rightarrow>
          Inr (category,
               flow\<lparr>state := (state flow)\<lparr>triage_category := category,
                                           triage_reasoning := reasoning\<rparr>\<rparr>))"

text \<open>
  \<^verbatim>\<open>triage_email\<close> of \<^verbatim>\<open>gmail_sync.py\<close>. The logging reads \<^verbatim>\<open>body[:500]\<close> before
  the \<^verbatim>\<open>try\<close>; the pause before the call and the printing do not bear on the result
  and are left out. The \<^verbatim>\<open>except Exception\<close> handler is the \<open>Inl\<close> branch: it
  catches the instances of \<^verbatim>\<open>Exception\<close> and lets every other exception through.
\<close>

definition gmail_sync_triage_email ::
  "EmailTriageFlow \<Rightarrow> pystr \<Rightarrow> pystr \<Rightarrow> pystr \<Rightarrow> (error + string \<times> string) \<times> EmailTriageFlow" where
  "gmail_sync_triage_email flow subject body sender =
     (case body of
        None \<Rightarrow> (Inl TypeError, flow)
      | Some _ \<Rightarrow>
          (let flow1 = flow\<lparr>state := (state flow)\<lparr>email_subject := subject,
                                                  email_body := body,
                                                  email_sender := sender\<rparr>\<rparr>
           in case process_email flow1 of
                Inr (category, flow2) \<Rightarrow>
                  (let reasoning = triage_reasoning (state flow2)
                   in if category \<notin> set [''ignore'', ''notify'', ''respond'']
                      then (Inr (''notify'',
                                 reasoning @ [nl]
                                 @ ''[SYSTEM: Invalid category detected, defaulting to 'notify']''),
                            flow2)
                      else (Inr (category, reasoning), flow2))
              | Inl e \<Rightarrow>
                  if isinstance_Exception e
                  then (Inr (''notify'', ''Triage failed with error: '' @ str_of_error e), flow1)
                  else (Inl e, flow1)))"

section \<open>The Safeguard Policy of the specification, and sample crews\<close>


text \<open>Two crews for concrete runs: one that answers a fixed text, one that raises.\<close>

definition crew_says :: "string \<Rightarrow> string \<Rightarrow> error + string" where
  "crew_says answer prompt = Inr answer"


section \<open>Facts about the string methods and the loops\<close>

text \<open>
  \<open>str_in\<close> is the library's contiguous-sublist relation, which is what Python's
  \<^verbatim>\<open>in\<close> tests on strings.
\<close>

lemma str_in_sublist: "str_in sub s \<longleftrightarrow> sublist sub s"
  by (induction s) (auto simp: sublist_Cons_right)

lemma lower_or_empty_Some: "lower_or_empty (Some s) = lower s"
  by (simp add: lower_or_empty_def lower_def)

text \<open>
  Lower-casing keeps white space white space and nothing else becomes white space, so
  trimming and lower-casing commute.
\<close>

lemma is_space_lower_char: "is_space (lower_char c) = is_space c"
proof -
  have "of_char c < (256::int)" "0 \<le> (of_char c :: int)"
    by (simp_all add: of_char_def horner_sum_bound) 
  then show ?thesis
    by (auto simp add: is_space_def lower_char_def Let_def)
qed

lemma strip_lower: "strip (lower s) = lower (strip s)"
  by (simp add: strip_def lower_def dropWhile_map rev_map comp_def is_space_lower_char)

lemma split_once_cases:
  "(\<exists>a. split_once s = [a]) \<or> (\<exists>a b. split_once s = [a, b])"
  by (simp add: split_once_def)

lemma split_once_first:
  "\<exists>rest. split_once t = takeWhile (\<lambda>c. c \<noteq> nl) t # rest"
proof (cases "nl \<in> set t")
  case True
  then show ?thesis by (simp add: split_once_def)
next
  case False
  then have whole: "takeWhile (\<lambda>c. c \<noteq> nl) t = t"
    by (induction t) auto
  from False have "split_once t = [t]" by (simp add: split_once_def)
  then show ?thesis unfolding whole by simp
qed

lemma legal_loop_None: "legal_loop ks sl = None \<longleftrightarrow> (\<forall>k\<in>set ks. \<not> str_in k sl)"
  by (induction ks) auto

lemma legal_loop_Some:
  "legal_loop ks sl = Some r \<Longrightarrow> fst r = Some ''respond'' \<and> fst (snd r) = 95 / 100"
  by (induction ks) (auto split: if_splits)

lemma platform_loop_Some:
  "platform_loop i bs = Some r \<Longrightarrow> fst r = Some ''ignore'' \<and> fst (snd r) = 9 / 10"
  by (induction i bs rule: platform_loop.induct) (auto split: if_splits option.splits)

lemma any_in_lower_Some:
  "any_in_lower ts (Some s) = Inr (list_ex (\<lambda>t. str_in t (lower s)) ts)"
  by (induction ts) (auto simp: py_lower_def)

text \<open>
  Unfolding sets for running the model on concrete emails.
\<close>

lemmas eval_strings =
  lower_or_empty_def lower_def lower_char_def char_of_def strip_def is_space_def nl_def quote_def
  split_once_def str_count_def py_lower_def format_str_def

lemmas eval_matcher =
  analyze_email_indicators_def legal_indicators_def team_domains_def platform_indicators_def
  platform_reason_def marketing_indicators_def

section \<open>Facts about the matcher\<close>

lemma analyze_ringcentral:
  assumes "str_in ''ringcentral'' (lower f)"
    and "str_in ''voice message'' (lower s) \<or> str_in ''text message'' (lower s) \<or> str_in ''fax'' (lower s)"
  shows "analyze_email_indicators self (Some s) body (Some f) =
           (Some ''notify'', 95 / 100, ''Message notification from RingCentral'')"
  using assms by (auto simp add: analyze_email_indicators_def lower_or_empty_Some Let_def)

lemma analyze_bill:
  assumes "(str_in ''bill'' (lower s) \<and> str_in ''due'' (lower s)) \<or> str_in ''payment required'' (lower s)"
  shows "fst (analyze_email_indicators self (Some s) body sender) = Some ''notify'' \<and>
         fst (snd (analyze_email_indicators self (Some s) body sender)) = 95 / 100"
  using assms by (auto simp add: analyze_email_indicators_def lower_or_empty_Some Let_def)

lemma analyze_legal:
  assumes "k \<in> set legal_terms" and "str_in k (lower s)"
  shows "fst (analyze_email_indicators self (Some s) body sender) \<in> {Some ''notify'', Some ''respond''} \<and>
         fst (snd (analyze_email_indicators self (Some s) body sender)) = 95 / 100"
proof -
  have "k \<in> set legal_indicators"
    using assms(1) by (auto simp: legal_terms_def legal_indicators_def)
  then have "legal_loop legal_indicators (lower s) \<noteq> None"
    using assms(2) by (auto simp: legal_loop_None)
  then obtain r where r: "legal_loop legal_indicators (lower s) = Some r" by auto
  from legal_loop_Some[OF r] show ?thesis
    by (simp add: analyze_email_indicators_def lower_or_empty_Some Let_def r)
qed

lemma analyze_categories:
  "fst (analyze_email_indicators self subject body sender) \<in>
     {None, Some ''ignore'', Some ''notify'', Some ''respond''}"
  unfolding analyze_email_indicators_def Let_def
  by (auto split: option.splits if_splits dest: legal_loop_Some platform_loop_Some)

text \<open>
  A category from the matcher always passes the fast-path test, so the crew runs
  exactly when the matcher returns \<^verbatim>\<open>None\<close>.
\<close>

lemma analyze_confident:
  "fst (analyze_email_indicators self subject body sender) = Some c \<Longrightarrow>
     c \<noteq> [] \<and> 9 / 10 \<le> fst (snd (analyze_email_indicators self subject body sender))"
  unfolding analyze_email_indicators_def Let_def
  by (auto split: option.splits if_splits dest: legal_loop_Some platform_loop_Some)




section \<open>Facts about the orchestrator\<close>

lemma triage_fast:
  assumes "fst (analyze_email_indicators self subject body sender) = Some c"
    and "c \<noteq> []" and "9 / 10 \<le> fst (snd (analyze_email_indicators self subject body sender))"
  shows "triage_email self subject body sender =
           Inr (c, ''Automatic categorization: '' @ snd (snd (analyze_email_indicators self subject body sender)))"
proof -
  obtain pc cf pr where a: "analyze_email_indicators self subject body sender = (pc, cf, pr)"
    by (cases "analyze_email_indicators self subject body sender") auto
  with assms show ?thesis by (simp add: triage_email_def)
qed


lemma triage_email_cases:
  "(\<exists>c. c \<noteq> [] \<and> fst (analyze_email_indicators self subject body sender) = Some c \<and>
        9 / 10 \<le> fst (snd (analyze_email_indicators self subject body sender)) \<and>
        triage_email self subject body sender =
          Inr (c, ''Automatic categorization: '' @ snd (snd (analyze_email_indicators self subject body sender))))
   \<or> triage_email self subject body sender = llm_path self subject body sender"
proof -
  obtain pc cf pr where a: "analyze_email_indicators self subject body sender = (pc, cf, pr)"
    by (cases "analyze_email_indicators self subject body sender") auto
  show ?thesis by (cases pc) (auto simp add: triage_email_def a)
qed

lemma parse_result_category:
  "fst (parse_result raw) \<in> {''ignore'', ''notify'', ''respond''}"
  using split_once_cases[of "strip raw"]
  by (auto simp add: parse_result_def Let_def)

lemma safeguard_message_valid:
  "safeguard_message subject sender (c, r) = Inr (c', r') \<Longrightarrow>
   c \<in> {''ignore'', ''notify'', ''respond''} \<Longrightarrow> c' \<in> {''ignore'', ''notify'', ''respond''}"
  by (auto simp add: safeguard_message_def and_then_def split: if_splits sum.splits)

lemma safeguard_legal_valid:
  "safeguard_legal subject (c, r) = Inr (c', r') \<Longrightarrow>
   c \<in> {''ignore'', ''notify'', ''respond''} \<Longrightarrow> c' \<in> {''ignore'', ''notify'', ''respond''}"
  by (auto simp add: safeguard_legal_def and_then_def split: if_splits sum.splits)

lemma safeguard_bill_valid:
  "safeguard_bill subject (c, r) = Inr (c', r') \<Longrightarrow>
   c \<in> {''ignore'', ''notify'', ''respond''} \<Longrightarrow> c' \<in> {''ignore'', ''notify'', ''respond''}"
  by (auto simp add: safeguard_bill_def and_then_def split: if_splits sum.splits)

lemma apply_safeguards_valid:
  assumes "apply_safeguards subject sender (c, r) = Inr (c', r')"
    and "c \<in> {''ignore'', ''notify'', ''respond''}"
  shows "c' \<in> {''ignore'', ''notify'', ''respond''}"
proof -
  from assms(1) obtain c1 r1 c2 r2 where
    1: "safeguard_message subject sender (c, r) = Inr (c1, r1)" and
    2: "safeguard_legal subject (c1, r1) = Inr (c2, r2)" and
    3: "safeguard_bill subject (c2, r2) = Inr (c', r')"
    by (auto simp add: apply_safeguards_def and_then_def split: sum.splits)
  from safeguard_message_valid[OF 1 assms(2)] have "c1 \<in> {''ignore'', ''notify'', ''respond''}" .
  from safeguard_legal_valid[OF 2 this] have "c2 \<in> {''ignore'', ''notify'', ''respond''}" .
  from safeguard_bill_valid[OF 3 this] show ?thesis .
qed

lemma apply_safeguards_total:
  "\<exists>c' r'. apply_safeguards (Some s) (Some f) (c, r) = Inr (c', r')"
  by (simp add: apply_safeguards_def safeguard_message_def safeguard_legal_def safeguard_bill_def
      and_then_def any_in_lower_Some py_lower_def)



lemma any_in_lower_None:
  "any_in_lower ts None = Inr b \<Longrightarrow> ts = []"
  by (cases ts) (simp_all add: py_lower_def)





text \<open>
  The handler of the wrapper is \<^verbatim>\<open>except Exception\<close>: an exception outside that class
  leaves the wrapper.
\<close>

lemma wrapper_lets_base_exception_through:
  assumes "triage_email (triage_agent flow) subject (Some body) sender = Inl e"
    and "\<not> isinstance_Exception e"
  shows "fst (gmail_sync_triage_email flow subject (Some body) sender) = Inl e"
  using assms
  by (simp add: gmail_sync_triage_email_def process_email_def and_then_def Let_def)

section \<open>The claims\<close>

subsection \<open>C1: RingCentral messages\<close>

text \<open>
  C1. Whenever the sender contains "ringcentral" and the subject contains "voice message",
  "text message" or "fax", both after lower-casing, \<open>triage_email\<close> returns the
  category "notify", whatever the body is and whatever the crew would answer: the first
  rule of the matcher fires and the method returns on the fast path.
\<close>

theorem triage_ringcentral_notify:
  assumes "str_in ''ringcentral'' (lower sender)"
    and "str_in ''voice message'' (lower subject) \<or> str_in ''text message'' (lower subject)
         \<or> str_in ''fax'' (lower subject)"
  shows "triage_email self (Some subject) body (Some sender) =
           Inr (''notify'', ''Automatic categorization: Message notification from RingCentral'')"
  using assms by (simp add: triage_email_def analyze_ringcentral)

text \<open>
  A RingCentral voice message, with a crew that would have answered "ignore".
\<close>

theorem triage_ringcentral_notify_witness:
  "str_in ''ringcentral'' (lower ''RingCentral <notify@RingCentral.com>'')
   \<and> str_in ''voice message'' (lower ''New Voice Message from 555-0100'')
   \<and> triage_email \<lparr>triage_instructions = [], crew_kickoff = crew_says ''ignore''\<rparr>
         (Some ''New Voice Message from 555-0100'') None (Some ''RingCentral <notify@RingCentral.com>'')
       = Inr (''notify'', ''Automatic categorization: Message notification from RingCentral'')"
proof -
  have h1: "str_in ''ringcentral'' (lower ''RingCentral <notify@RingCentral.com>'')"
    by (simp add: eval_strings)
  have h2: "str_in ''voice message'' (lower ''New Voice Message from 555-0100'')"
    by (simp add: eval_strings)
  from h2 have h2':
    "str_in ''voice message'' (lower ''New Voice Message from 555-0100'')
     \<or> str_in ''text message'' (lower ''New Voice Message from 555-0100'')
     \<or> str_in ''fax'' (lower ''New Voice Message from 555-0100'')" ..
  from triage_ringcentral_notify[OF h1 h2'] h1 h2 show ?thesis by blast
qed

subsection \<open>C2: legal keywords\<close>

text \<open>
  C2. Whenever the lower-cased subject contains one of the safeguard's legal terms,
  \<open>triage_email\<close> returns, and its category is not "ignore", for every body, every
  sender (also \<^verbatim>\<open>None\<close>) and every crew. Each term is also one of the matcher's
  legal indicators, so one of the first three rules fires.
\<close>

theorem triage_legal_not_ignore:
  assumes "k \<in> set legal_terms" and "str_in k (lower subject)"
  shows "\<exists>category reasoning. triage_email self (Some subject) body sender = Inr (category, reasoning)
           \<and> category \<noteq> ''ignore''"
proof -
  from analyze_legal[OF assms, of self body sender]
  consider "fst (analyze_email_indicators self (Some subject) body sender) = Some ''notify''"
         "fst (snd (analyze_email_indicators self (Some subject) body sender)) = 95 / 100"
    | "fst (analyze_email_indicators self (Some subject) body sender) = Some ''respond''"
         "fst (snd (analyze_email_indicators self (Some subject) body sender)) = 95 / 100"
    by auto
  then show ?thesis
    by cases (simp_all add: triage_fast)
qed

text \<open>
  A subject with "court" that also carries notification and digest signals, from a
  noreply sender, with a crew that would have answered "ignore".
\<close>

theorem triage_legal_not_ignore_witness:
  "''court'' \<in> set legal_terms
   \<and> str_in ''court'' (lower ''Court notification digest'')
   \<and> triage_email \<lparr>triage_instructions = [], crew_kickoff = crew_says ''ignore''\<rparr>
         (Some ''Court notification digest'') (Some ''unsubscribe'') (Some ''noreply@skool.com'')
       = Inr (''respond'', ''Automatic categorization: Legal term in subject: 'court'' @ [quote])"
proof -
  let ?agent = "\<lparr>triage_instructions = [], crew_kickoff = crew_says ''ignore''\<rparr>"
  have h1: "''court'' \<in> set legal_terms" by (simp add: legal_terms_def)
  have h2: "str_in ''court'' (lower ''Court notification digest'')"
    by (simp add: eval_strings)
  from triage_legal_not_ignore[OF h1 h2, of ?agent "Some ''unsubscribe''" "Some ''noreply@skool.com''"]
  have "\<exists>category reasoning.
          triage_email ?agent (Some ''Court notification digest'') (Some ''unsubscribe'') (Some ''noreply@skool.com'')
            = Inr (category, reasoning) \<and> category \<noteq> ''ignore''" .
  moreover have "triage_email ?agent (Some ''Court notification digest'') (Some ''unsubscribe'') (Some ''noreply@skool.com'')
       = Inr (''respond'', ''Automatic categorization: Legal term in subject: 'court'' @ [quote])"
    by (simp add: triage_email_def eval_matcher eval_strings)
  ultimately show ?thesis using h1 h2 by blast
qed

subsection \<open>C3: bills that are due\<close>

text \<open>
  C3. Whenever the lower-cased subject contains both "bill" and "due",
  \<open>triage_email\<close> returns the category "notify", for every body, sender and crew.
\<close>

theorem triage_bill_due_notify:
  assumes "str_in ''bill'' (lower subject)" and "str_in ''due'' (lower subject)"
  shows "\<exists>reasoning. triage_email self (Some subject) body sender = Inr (''notify'', reasoning)"
proof -
  from assms have "fst (analyze_email_indicators self (Some subject) body sender) = Some ''notify'' \<and>
         fst (snd (analyze_email_indicators self (Some subject) body sender)) = 95 / 100"
    by (intro analyze_bill) simp
  then show ?thesis by (simp add: triage_fast)
qed

theorem triage_bill_due_notify_witness:
  "str_in ''bill'' (lower ''Your Electric Bill is Due Friday'')
   \<and> str_in ''due'' (lower ''Your Electric Bill is Due Friday'')
   \<and> (\<exists>reasoning.
        triage_email \<lparr>triage_instructions = [], crew_kickoff = crew_says ''ignore''\<rparr>
          (Some ''Your Electric Bill is Due Friday'') (Some ''Pay online'') (Some ''billing@utility.example'')
        = Inr (''notify'', reasoning))"
proof -
  have h1: "str_in ''bill'' (lower ''Your Electric Bill is Due Friday'')"
    by (simp add: eval_strings)
  have h2: "str_in ''due'' (lower ''Your Electric Bill is Due Friday'')"
    by (simp add: eval_strings)
  from triage_bill_due_notify[OF h1 h2] h1 h2 show ?thesis by blast
qed

subsection \<open>C4: an exception of the crew\<close>




subsection \<open>C5: the category is one of three\<close>

text \<open>
  C5. Whenever \<open>triage_email\<close> returns a pair, its category is "ignore", "notify" or
  "respond"; and it does return a pair whenever subject and sender are strings and the
  crew answers with a text.
\<close>

theorem triage_category_valid:
  "(triage_email self subject body sender = Inr (category, reasoning) \<longrightarrow>
      category \<in> {''ignore'', ''notify'', ''respond''}) \<and>
   (crew_kickoff self (email_content (Some s) (Some f) body) = Inr raw \<longrightarrow>
      (\<exists>c r. triage_email self (Some s) body (Some f) = Inr (c, r)
             \<and> c \<in> {''ignore'', ''notify'', ''respond''}))"
proof -
  have valid: "c \<in> {''ignore'', ''notify'', ''respond''}"
    if "triage_email self subject body sender = Inr (c, r)" for subject sender c r
    using triage_email_cases[of self subject body sender]
  proof (elim disjE exE conjE)
    fix c0 assume "fst (analyze_email_indicators self subject body sender) = Some c0"
      and "triage_email self subject body sender =
          Inr (c0, ''Automatic categorization: '' @ snd (snd (analyze_email_indicators self subject body sender)))"
    with that analyze_categories[of self subject body sender] show ?thesis by auto
  next
    assume "triage_email self subject body sender = llm_path self subject body sender"
    with that obtain raw where "apply_safeguards subject sender (parse_result raw) = Inr (c, r)"
      by (auto simp: llm_path_def and_then_def split: sum.splits)
    then show ?thesis
      using apply_safeguards_valid[of subject sender "fst (parse_result raw)" "snd (parse_result raw)" c r]
        parse_result_category[of raw] by simp
  qed
  have total: "\<exists>c r. triage_email self (Some s) body (Some f) = Inr (c, r)"
    if "crew_kickoff self (email_content (Some s) (Some f) body) = Inr raw"
    using triage_email_cases[of self "Some s" body "Some f"] that
      apply_safeguards_total[of s f "fst (parse_result raw)" "snd (parse_result raw)"]
    by (auto simp: llm_path_def and_then_def)
  show ?thesis using valid total by blast
qed

text \<open>
  A crew that answers "DONE": the category is still "notify".
\<close>

theorem triage_category_valid_witness:
  "crew_kickoff \<lparr>triage_instructions = [], crew_kickoff = crew_says ''DONE\<newline>handled already''\<rparr>
     (email_content (Some ''Lunch on Friday?'') (Some ''janedoe@gmail.com'') (Some ''Are you free?''))
   = Inr ''DONE\<newline>handled already''
   \<and> triage_email \<lparr>triage_instructions = [], crew_kickoff = crew_says ''DONE\<newline>handled already''\<rparr>
       (Some ''Lunch on Friday?'') (Some ''Are you free?'') (Some ''janedoe@gmail.com'')
     = Inr (''notify'',
            ''Could not determine exact category from 'done', defaulting to 'notify'.\<newline>DONE\<newline>handled already'')
   \<and> ''notify'' \<in> {''ignore'', ''notify'', ''respond''}"
proof -
  let ?agent = "\<lparr>triage_instructions = [], crew_kickoff = crew_says ''DONE\<newline>handled already''\<rparr>"
  have k: "crew_kickoff ?agent
     (email_content (Some ''Lunch on Friday?'') (Some ''janedoe@gmail.com'') (Some ''Are you free?''))
   = Inr ''DONE\<newline>handled already''"
    by (simp add: crew_says_def)
  have r: "triage_email ?agent (Some ''Lunch on Friday?'') (Some ''Are you free?'') (Some ''janedoe@gmail.com'')
   = Inr (''notify'',
          ''Could not determine exact category from 'done', defaulting to 'notify'.\<newline>DONE\<newline>handled already'')"
    by (simp add: triage_email_def llm_path_def eval_matcher eval_strings crew_says_def and_then_def
        parse_result_def apply_safeguards_def safeguard_message_def safeguard_legal_def
        safeguard_bill_def)
  from triage_category_valid[of ?agent "Some ''Lunch on Friday?''" "Some ''Are you free?''"
      "Some ''janedoe@gmail.com''" "''notify''"
      "''Could not determine exact category from 'done', defaulting to 'notify'.\<newline>DONE\<newline>handled already''"
      "''Lunch on Friday?''" "''janedoe@gmail.com''" "''DONE\<newline>handled already''"]
    k r
  show ?thesis by blast
qed

subsection \<open>C6: the safeguards on both paths\<close>



subsection \<open>C7: parsing the crew's answer\<close>

text \<open>
  C7, as amended. The answer is first trimmed as a whole and then split at its first
  newline. If the first line of the trimmed answer, lower-cased and trimmed, is none of
  the three categories, the parsed category is "notify" and the reasoning is "Could not
  determine exact category from '...', defaulting to 'notify'." followed by a newline
  and the trimmed answer.
\<close>

theorem parse_result_default_notify:
  assumes "strip (lower (takeWhile (\<lambda>c. c \<noteq> nl) (strip raw))) \<notin> {''ignore'', ''notify'', ''respond''}"
  shows "parse_result raw =
           (''notify'',
            ''Could not determine exact category from '' @ [quote]
            @ strip (lower (takeWhile (\<lambda>c. c \<noteq> nl) (strip raw))) @ [quote]
            @ '', defaulting to 'notify'.'' @ [nl] @ strip raw)"
proof -
  obtain rest where "split_once (strip raw) = takeWhile (\<lambda>c. c \<noteq> nl) (strip raw) # rest"
    using split_once_first by blast
  with assms show ?thesis
    by (simp add: parse_result_def Let_def)
qed

theorem parse_result_default_notify_witness:
  "strip (lower (takeWhile (\<lambda>c. c \<noteq> nl) (strip ''Probably IGNORE\<newline>It looks like spam'')))
     \<notin> {''ignore'', ''notify'', ''respond''}
   \<and> fst (parse_result ''Probably IGNORE\<newline>It looks like spam'') = ''notify''"
proof -
  have h: "strip (lower (takeWhile (\<lambda>c. c \<noteq> nl) (strip ''Probably IGNORE\<newline>It looks like spam'')))
     \<notin> {''ignore'', ''notify'', ''respond''}"
    by (simp add: strip_def is_space_def lower_def lower_char_def char_of_def nl_def)
  show ?thesis using h parse_result_default_notify[OF h] by simp
qed

text \<open>
  The claim as written fails on an answer that starts with a newline: split at its
  first newline, its first line is empty and so no category, yet the parsed category
  is "ignore", not "notify".
\<close>

theorem parse_result_leading_newline_counterexample:
  "split_once ''\<newline>ignore'' = ['''', ''ignore'']
   \<and> strip (lower '''') \<notin> {''ignore'', ''notify'', ''respond''}
   \<and> parse_result ''\<newline>ignore'' = (''ignore'', ''No reasoning provided'')"
  by (simp add: parse_result_def split_once_def strip_def is_space_def lower_def lower_char_def
      char_of_def nl_def)

subsection \<open>C9: missing fields\<close>

text \<open>
  C9. The matcher guards each field with \<^verbatim>\<open>x.lower() if x else ""\<close>; the overrides
  call \<^verbatim>\<open>subject.lower()\<close> unguarded. With no subject, an email the matcher
  cannot place and a crew that answers "ignore", \<open>triage_email\<close> raises.
\<close>

theorem triage_none_subject_raises:
  "triage_email \<lparr>triage_instructions = [], crew_kickoff = crew_says ''ignore''\<rparr>
     None (Some ''Hi'') (Some ''bob@example.com'') = Inl AttributeError"
  by (simp add: triage_email_def llm_path_def analyze_email_indicators_def lower_or_empty_def lower_def
      lower_char_def char_of_def legal_indicators_def team_domains_def platform_indicators_def
      marketing_indicators_def str_count_def crew_says_def parse_result_def split_once_def
      strip_def is_space_def nl_def
      apply_safeguards_def safeguard_message_def and_then_def py_lower_def)

subsection \<open>C10: payment required\<close>

text \<open>
  C10. Whenever the lower-cased subject contains "payment required", the matcher
  returns the category "notify" with confidence 0.95, also when the subject contains
  neither "bill" nor "due".
\<close>

theorem payment_required_notify:
  assumes "str_in ''payment required'' (lower subject)"
  shows "fst (analyze_email_indicators self (Some subject) body sender) = Some ''notify'' \<and>
         fst (snd (analyze_email_indicators self (Some subject) body sender)) = 95 / 100"
  using assms by (intro analyze_bill) simp

text \<open>
  A subject with "payment required" and with neither "bill" nor "due".
\<close>

theorem payment_required_notify_witness:
  "str_in ''payment required'' (lower ''Payment Required for your account'')
   \<and> \<not> str_in ''bill'' (lower ''Payment Required for your account'')
   \<and> \<not> str_in ''due'' (lower ''Payment Required for your account'')
   \<and> fst (analyze_email_indicators \<lparr>triage_instructions = [], crew_kickoff = crew_says ''ignore''\<rparr>
            (Some ''Payment Required for your account'') None (Some ''accounts@vendor.example''))
       = Some ''notify''
   \<and> fst (snd (analyze_email_indicators \<lparr>triage_instructions = [], crew_kickoff = crew_says ''ignore''\<rparr>
            (Some ''Payment Required for your account'') None (Some ''accounts@vendor.example'')))
       = 95 / 100"
proof -
  have h: "str_in ''payment required'' (lower ''Payment Required for your account'')"
    by (simp add: eval_strings)
  have n1: "\<not> str_in ''bill'' (lower ''Payment Required for your account'')"
    by (simp add: eval_strings)
  have n2: "\<not> str_in ''due'' (lower ''Payment Required for your account'')"
    by (simp add: eval_strings)
  from payment_required_notify[OF h] h n1 n2 show ?thesis by blast
qed

end
